theory Spec2Isabelle
  imports Complex_Main
begin

section \<open>Data model of \<^verbatim>\<open>src/binance_data_collector.py\<close>\<close>

text \<open>
  Python's \<^verbatim>\<open>float\<close> is kept abstract: it is the type parameter \<open>'f\<close>. The
  definitions use only its zero and its addition (sort \<open>{zero, plus}\<close>), with no law
  assumed about either. Python's \<^verbatim>\<open>int\<close> is \<^typ>\<open>int\<close>, and \<^verbatim>\<open>//\<close> on
  integers is \<open>div\<close> (both round towards minus infinity).
\<close>

record 'f TradeData =
  timestamp :: int
  price :: 'f
  quantity :: 'f
  is_buyer_maker :: bool
  trade_id :: int

text \<open>
  The field \<^verbatim>\<open>CandleData.timestamp\<close> is named \<open>candle_timestamp\<close> here, since the
  field name \<open>timestamp\<close> belongs to \<open>TradeData\<close>.
\<close>

record 'f CandleData =
  candle_timestamp :: int
  open_price :: 'f
  high_price :: 'f
  low_price :: 'f
  close_price :: 'f
  volume :: 'f
  num_buyers :: int
  num_sellers :: int
  buyers_volume :: 'f
  sellers_volume :: 'f
  power_position :: int
  max_buyers_per_second :: int
  max_sellers_per_second :: int

text \<open>
  The values a decoded kline message carries (\<^verbatim>\<open>json.loads\<close>): null, booleans,
  integers and strings. The exceptions the two methods can raise are values.
\<close>

datatype py_value = PyNone | PyBool bool | PyInt int | PyStr string

datatype error = KeyError | ValueError | TypeError | OverflowError

type_synonym kline = "string \<rightharpoonup> py_value"

text \<open>
  \<^verbatim>\<open>second_trade_counts\<close> is a \<^verbatim>\<open>defaultdict\<close> from second to an inner dict with
  the keys \<^verbatim>\<open>'buyers'\<close> and \<^verbatim>\<open>'sellers'\<close>.
\<close>

type_synonym counts = "string \<rightharpoonup> int"

type_synonym second_counts = "int \<rightharpoonup> counts"

record 'f DataProcessor =
  trades_buffer :: "'f TradeData list"
  second_trade_counts :: second_counts
  current_minute_start :: "int option"

section \<open>Python primitives\<close>

definition and_then :: "error + 'a \<Rightarrow> ('a \<Rightarrow> error + 'b) \<Rightarrow> error + 'b" where
  "and_then r f = (case r of Inl e \<Rightarrow> Inl e | Inr v \<Rightarrow> f v)"

text \<open>\<^verbatim>\<open>d[key]\<close> on a plain dict raises \<^verbatim>\<open>KeyError\<close> when the key is absent.\<close>

definition getitem :: "('k \<rightharpoonup> 'v) \<Rightarrow> 'k \<Rightarrow> error + 'v" where
  "getitem d key = (case d key of None \<Rightarrow> Inl KeyError | Some v \<Rightarrow> Inr v)"

text \<open>\<^verbatim>\<open>d.get(key, default)\<close>.\<close>

definition dict_get :: "('k \<rightharpoonup> 'v) \<Rightarrow> 'k \<Rightarrow> 'v \<Rightarrow> 'v" where
  "dict_get d key dflt = (case d key of None \<Rightarrow> dflt | Some v \<Rightarrow> v)"

text \<open>Truth value of an object, as \<^verbatim>\<open>not\<close> tests it.\<close>

fun py_truthy :: "py_value \<Rightarrow> bool" where
  "py_truthy PyNone = False"
| "py_truthy (PyBool b) = b"
| "py_truthy (PyInt n) = (n \<noteq> 0)"
| "py_truthy (PyStr s) = (s \<noteq> [])"

text \<open>
  \<^verbatim>\<open>int(v)\<close>. The parser of integer literals is the parameter \<open>int_of_str\<close>
  (\<open>None\<close> where \<^verbatim>\<open>int\<close> raises \<^verbatim>\<open>ValueError\<close>).
\<close>

fun py_int :: "(string \<Rightarrow> int option) \<Rightarrow> py_value \<Rightarrow> error + int" where
  "py_int int_of_str PyNone = Inl TypeError"
| "py_int int_of_str (PyBool b) = Inr (if b then 1 else 0)"
| "py_int int_of_str (PyInt n) = Inr n"
| "py_int int_of_str (PyStr s) =
     (case int_of_str s of None \<Rightarrow> Inl ValueError | Some n \<Rightarrow> Inr n)"

text \<open>
  \<^verbatim>\<open>sum(xs)\<close>: starts from 0 and adds from the left, as CPython does in the
  versions that \<^verbatim>\<open>setup.py\<close> lists (3.8 to 3.11).
\<close>

definition py_sum :: "'a::{zero,plus} list \<Rightarrow> 'a" where
  "py_sum xs = foldl (+) 0 xs"

text \<open>The factory of the \<^verbatim>\<open>defaultdict\<close>: \<^verbatim>\<open>lambda: {'buyers': 0, 'sellers': 0}\<close>.\<close>

definition default_counts :: counts where
  "default_counts = [''buyers'' \<mapsto> 0, ''sellers'' \<mapsto> 0]"

text \<open>
  \<^verbatim>\<open>defaultdict.__getitem__\<close>: a missing key is inserted with a fresh value of the
  factory, and that value is returned. The result is the value and the dict after the
  access.
\<close>

definition dd_getitem :: "second_counts \<Rightarrow> int \<Rightarrow> counts \<times> second_counts" where
  "dd_getitem m k =
     (case m k of
        Some d \<Rightarrow> (d, m)
      | None \<Rightarrow> (default_counts, m(k \<mapsto> default_counts)))"

text \<open>
  \<^verbatim>\<open>m[k][side] += 1\<close>: the inner dict is read at \<open>side\<close> and written back. A
  stateful operation returns its outcome (\<open>Inl e\<close> when it raises \<open>e\<close>) together with
  the state it leaves behind, which a raise does not roll back.
\<close>

definition increment :: "second_counts \<Rightarrow> int \<Rightarrow> string \<Rightarrow> (error + unit) \<times> second_counts" where
  "increment m k side =
     (case dd_getitem m k of (d, m') \<Rightarrow>
      (case d side of
         None \<Rightarrow> (Inl KeyError, m')
       | Some v \<Rightarrow> (Inr (), m'(k \<mapsto> d(side \<mapsto> v + 1)))))"

section \<open>\<^verbatim>\<open>DataProcessor\<close>\<close>

definition init :: "'f DataProcessor" where
  "init = \<lparr>trades_buffer = [], second_trade_counts = Map.empty,
            current_minute_start = None\<rparr>"

text \<open>\<^verbatim>\<open>add_trade\<close> (lines 86-94).\<close>

definition add_trade :: "'f DataProcessor \<Rightarrow> 'f TradeData \<Rightarrow> (error + unit) \<times> 'f DataProcessor" where
  "add_trade self trade =
     (let self1 = self\<lparr>trades_buffer := trades_buffer self @ [trade]\<rparr>;
          second_timestamp = timestamp trade div 1000
      in case (if is_buyer_maker trade
               then increment (second_trade_counts self1) second_timestamp ''sellers''
               else increment (second_trade_counts self1) second_timestamp ''buyers'') of
           (r, m) \<Rightarrow> (r, self1\<lparr>second_trade_counts := m\<rparr>))"

text \<open>Lines 100-101: \<^verbatim>\<open>int(kline_data['t'])\<close>, then \<^verbatim>\<open>int(kline_data['T'])\<close>.\<close>

definition candle_times :: "(string \<Rightarrow> int option) \<Rightarrow> kline \<Rightarrow> error + int \<times> int" where
  "candle_times int_of_str kline_data =
     and_then (and_then (getitem kline_data ''t'') (py_int int_of_str)) (\<lambda>open_time.
     and_then (and_then (getitem kline_data ''T'') (py_int int_of_str)) (\<lambda>close_time.
       Inr (open_time, close_time)))"

text \<open>Lines 104-107: the trades of the buffer inside the candle, both ends included.\<close>

definition minute_trades_of :: "'f TradeData list \<Rightarrow> int \<Rightarrow> int \<Rightarrow> 'f TradeData list" where
  "minute_trades_of buffer open_time close_time =
     [trade \<leftarrow> buffer. open_time \<le> timestamp trade \<and> timestamp trade \<le> close_time]"

text \<open>
  Lines 109-120: \<open>(num_buyers, num_sellers, buyers_volume, sellers_volume)\<close>. The
  literal \<^verbatim>\<open>0.0\<close> and the start value of \<^verbatim>\<open>sum\<close> are both the zero of \<open>'f\<close>.
\<close>

definition trade_metrics :: "'f::{zero,plus} TradeData list \<Rightarrow> int \<times> int \<times> 'f \<times> 'f" where
  "trade_metrics minute_trades =
     (if minute_trades = [] then (0, 0, 0, 0)
      else
        (py_sum [1. trade \<leftarrow> minute_trades, \<not> is_buyer_maker trade],
         py_sum [1. trade \<leftarrow> minute_trades, is_buyer_maker trade],
         py_sum [quantity trade. trade \<leftarrow> minute_trades, \<not> is_buyer_maker trade],
         py_sum [quantity trade. trade \<leftarrow> minute_trades, is_buyer_maker trade]))"

text \<open>Lines 122-128.\<close>

definition power_position_of :: "int \<Rightarrow> int \<Rightarrow> int" where
  "power_position_of n_buyers n_sellers =
     (if n_buyers > n_sellers then 1
      else if n_sellers > n_buyers then - 1
      else 0)"

text \<open>
  Lines 136-140, the loop body run over the seconds in order. Each of the two reads
  goes through \<^verbatim>\<open>defaultdict.__getitem__\<close>, so the dict is threaded through the loop.
  The accumulator is \<open>(max_buyers_per_second, max_sellers_per_second)\<close>.
\<close>

fun scan_seconds :: "int list \<Rightarrow> int \<times> int \<Rightarrow> second_counts \<Rightarrow> (error + int \<times> int) \<times> second_counts" where
  "scan_seconds [] acc m = (Inr acc, m)"
| "scan_seconds (second # rest) (max_b, max_s) m =
     (case dd_getitem m second of (d1, m1) \<Rightarrow>
      (case d1 ''buyers'' of
         None \<Rightarrow> (Inl KeyError, m1)
       | Some buyers_count \<Rightarrow>
          (case dd_getitem m1 second of (d2, m2) \<Rightarrow>
           (case d2 ''sellers'' of
              None \<Rightarrow> (Inl KeyError, m2)
            | Some sellers_count \<Rightarrow>
                scan_seconds rest (max max_b buyers_count, max max_s sellers_count) m2))))"

text \<open>
  Lines 131-140: \<^verbatim>\<open>range(start_second, end_second + 1)\<close> is the list
  \<open>[start_second..end_second]\<close>.
\<close>

definition max_per_second :: "second_counts \<Rightarrow> int \<Rightarrow> int \<Rightarrow> (error + int \<times> int) \<times> second_counts" where
  "max_per_second m open_time close_time =
     (let start_second = open_time div 1000;
          end_second = close_time div 1000
      in scan_seconds [start_second..end_second] (0, 0) m)"

text \<open>\<^verbatim>\<open>float(kline_data[key])\<close>; \<^verbatim>\<open>float\<close> itself is the parameter \<open>py_float\<close>.\<close>

definition float_field :: "(py_value \<Rightarrow> error + 'f) \<Rightarrow> kline \<Rightarrow> string \<Rightarrow> error + 'f" where
  "float_field py_float kline_data key = and_then (getitem kline_data key) py_float"

text \<open>Lines 145-149: the five conversions, in the order of the constructor call.\<close>

definition kline_prices :: "(py_value \<Rightarrow> error + 'f) \<Rightarrow> kline \<Rightarrow> error + 'f \<times> 'f \<times> 'f \<times> 'f \<times> 'f" where
  "kline_prices py_float kline_data =
     and_then (float_field py_float kline_data ''o'') (\<lambda>p_open.
     and_then (float_field py_float kline_data ''h'') (\<lambda>p_high.
     and_then (float_field py_float kline_data ''l'') (\<lambda>p_low.
     and_then (float_field py_float kline_data ''c'') (\<lambda>p_close.
     and_then (float_field py_float kline_data ''v'') (\<lambda>vol.
       Inr (p_open, p_high, p_low, p_close, vol))))))"

text \<open>Lines 159-167: the cleanup, with the one cutoff for the buffer and the dict.\<close>

definition cleanup :: "'f TradeData list \<Rightarrow> second_counts \<Rightarrow> int \<Rightarrow> 'f TradeData list \<times> second_counts" where
  "cleanup buffer m close_time =
     (let cutoff_time = close_time - (2 * 60 * 1000);
          cutoff_second = cutoff_time div 1000
      in ([trade \<leftarrow> buffer. timestamp trade > cutoff_time],
          (\<lambda>second. if second < cutoff_second then None else m second)))"

text \<open>
  \<^verbatim>\<open>process_minute_candle\<close> (lines 96-169). The outcome is the returned value
  (\<open>None\<close> or the candle) or the exception raised; the state is the one after the call.
  The warning of line 110 goes to the log and is not part of the state.
\<close>

definition process_minute_candle ::
  "(string \<Rightarrow> int option) \<Rightarrow> (py_value \<Rightarrow> error + 'f) \<Rightarrow> 'f::{zero,plus} DataProcessor \<Rightarrow> kline
     \<Rightarrow> (error + 'f CandleData option) \<times> 'f DataProcessor" where
  "process_minute_candle int_of_str py_float self kline_data =
     (if \<not> py_truthy (dict_get kline_data ''x'' (PyBool False)) then (Inr None, self)
      else
       (case candle_times int_of_str kline_data of
          Inl e \<Rightarrow> (Inl e, self)
        | Inr (open_time, close_time) \<Rightarrow>
         (let minute_trades = minute_trades_of (trades_buffer self) open_time close_time in
          (case trade_metrics minute_trades of
             (n_buyers, n_sellers, b_volume, s_volume) \<Rightarrow>
           (let position = power_position_of n_buyers n_sellers in
            (case max_per_second (second_trade_counts self) open_time close_time of
               (Inl e, m) \<Rightarrow> (Inl e, self\<lparr>second_trade_counts := m\<rparr>)
             | (Inr (max_b, max_s), m) \<Rightarrow>
              (case kline_prices py_float kline_data of
                 Inl e \<Rightarrow> (Inl e, self\<lparr>second_trade_counts := m\<rparr>)
               | Inr (p_open, p_high, p_low, p_close, vol) \<Rightarrow>
                (let candle = \<lparr>candle_timestamp = open_time,
                               open_price = p_open, high_price = p_high,
                               low_price = p_low, close_price = p_close,
                               volume = vol,
                               num_buyers = n_buyers, num_sellers = n_sellers,
                               buyers_volume = b_volume, sellers_volume = s_volume,
                               power_position = position,
                               max_buyers_per_second = max_b,
                               max_sellers_per_second = max_s\<rparr>
                 in (case cleanup (trades_buffer self) m close_time of
                       (buffer, m') \<Rightarrow>
                         (Inr (Some candle),
                          self\<lparr>trades_buffer := buffer,
                               second_trade_counts := m'\<rparr>))))))))))"

text \<open>
  The states of a \<^verbatim>\<open>DataProcessor\<close>: the constructor's, and the state after any call
  of either method, whether it returned or raised (\<^verbatim>\<open>_handle_message\<close> catches the
  exception and keeps the object).
\<close>

inductive reachable :: "'f::{zero,plus} DataProcessor \<Rightarrow> bool" where
  reach_init: "reachable init"
| reach_add: "reachable self \<Longrightarrow> reachable (snd (add_trade self trade))"
| reach_process:
    "reachable self \<Longrightarrow> reachable (snd (process_minute_candle int_of_str py_float self kline_data))"

text \<open>
  What \<^verbatim>\<open>second_trade_counts[second][side]\<close> reads, with \<open>None\<close> where it would
  raise \<^verbatim>\<open>KeyError\<close>: a missing second reads the factory's value.
\<close>

definition read_count :: "second_counts \<Rightarrow> int \<Rightarrow> string \<Rightarrow> int option" where
  "read_count m second side = fst (dd_getitem m second) side"

text \<open>A well-formed bucket summary: integer times, and strings that \<^verbatim>\<open>float\<close> accepts.\<close>

definition is_int_field :: "kline \<Rightarrow> string \<Rightarrow> bool" where
  "is_int_field kline_data key =
     (case kline_data key of Some (PyInt n) \<Rightarrow> True | _ \<Rightarrow> False)"

definition is_numeric_field :: "(py_value \<Rightarrow> error + 'f) \<Rightarrow> kline \<Rightarrow> string \<Rightarrow> bool" where
  "is_numeric_field py_float kline_data key =
     (case kline_data key of
        Some (PyStr s) \<Rightarrow> (case py_float (PyStr s) of Inr x \<Rightarrow> True | Inl e \<Rightarrow> False)
      | _ \<Rightarrow> False)"

definition well_formed_kline :: "(py_value \<Rightarrow> error + 'f) \<Rightarrow> kline \<Rightarrow> bool" where
  "well_formed_kline py_float kline_data =
     (is_int_field kline_data ''t'' \<and> is_int_field kline_data ''T'' \<and>
      is_numeric_field py_float kline_data ''o'' \<and>
      is_numeric_field py_float kline_data ''h'' \<and>
      is_numeric_field py_float kline_data ''l'' \<and>
      is_numeric_field py_float kline_data ''c'' \<and>
      is_numeric_field py_float kline_data ''v'')"

text \<open>\<^verbatim>\<open>kline_data.get('x', False)\<close> is true.\<close>

definition is_closed :: "kline \<Rightarrow> bool" where
  "is_closed kline_data = py_truthy (dict_get kline_data ''x'' (PyBool False))"

section \<open>Auxiliary definitions for the proofs\<close>

text \<open>
  The invariant of \<^verbatim>\<open>second_trade_counts\<close>: every inner dict has both keys, as the
  factory builds it.
\<close>

definition counts_ok :: "second_counts \<Rightarrow> bool" where
  "counts_ok m =
     (\<forall>second d. m second = Some d \<longrightarrow> d ''buyers'' \<noteq> None \<and> d ''sellers'' \<noteq> None)"

text \<open>The key of the inner dict that \<^verbatim>\<open>add_trade\<close> increments for a trade.\<close>

definition side_of :: "'f TradeData \<Rightarrow> string" where
  "side_of trade = (if is_buyer_maker trade then ''sellers'' else ''buyers'')"

text \<open>The candle of lines 143-157, from the values computed before it.\<close>

definition candle_of ::
  "'f::{zero,plus} TradeData list \<Rightarrow> int \<Rightarrow> int \<Rightarrow> int \<times> int \<Rightarrow> 'f \<times> 'f \<times> 'f \<times> 'f \<times> 'f
     \<Rightarrow> 'f CandleData" where
  "candle_of buffer open_time close_time maxima prices =
     (case trade_metrics (minute_trades_of buffer open_time close_time) of
        (n_buyers, n_sellers, b_volume, s_volume) \<Rightarrow>
      (case maxima of (max_b, max_s) \<Rightarrow>
       (case prices of (p_open, p_high, p_low, p_close, vol) \<Rightarrow>
         \<lparr>candle_timestamp = open_time,
          open_price = p_open, high_price = p_high,
          low_price = p_low, close_price = p_close,
          volume = vol,
          num_buyers = n_buyers, num_sellers = n_sellers,
          buyers_volume = b_volume, sellers_volume = s_volume,
          power_position = power_position_of n_buyers n_sellers,
          max_buyers_per_second = max_b,
          max_sellers_per_second = max_s\<rparr>)))"

text \<open>
  Sample inputs for the examples: an instance of the parameter \<open>py_float\<close> that knows
  two literals, a closed kline message for the bucket from 0 to 3000, and trades that
  differ in timestamp and side. The examples take \<^typ>\<open>real\<close> for \<open>'f\<close>.
\<close>

definition example_float :: "py_value \<Rightarrow> error + real" where
  "example_float v =
     (case v of
        PyStr s \<Rightarrow>
          (if s = ''1.5'' then Inr (3 / 2) else if s = ''2.0'' then Inr 2 else Inl ValueError)
      | _ \<Rightarrow> Inl TypeError)"

definition example_kline :: kline where
  "example_kline =
     [''x'' \<mapsto> PyBool True, ''t'' \<mapsto> PyInt 0, ''T'' \<mapsto> PyInt 3000,
      ''o'' \<mapsto> PyStr ''1.5'', ''h'' \<mapsto> PyStr ''2.0'', ''l'' \<mapsto> PyStr ''1.5'',
      ''c'' \<mapsto> PyStr ''2.0'', ''v'' \<mapsto> PyStr ''2.0'']"

definition example_trade :: "int \<Rightarrow> bool \<Rightarrow> real TradeData" where
  "example_trade ts maker =
     \<lparr>timestamp = ts, price = 3 / 2, quantity = 2, is_buyer_maker = maker, trade_id = ts\<rparr>"

section \<open>Python's float addition on binary64\<close>

text \<open>
  An instance of the abstract float type: the finite IEEE-754 binary64 numbers, as
  pairs of an integer significand and a binary exponent (\<open>Double m e\<close> is
  \<open>m * 2 ^ e\<close>), with the addition that Python's \<^verbatim>\<open>+\<close> on floats performs: the
  exact sum rounded to 53 significant bits, to nearest, ties to even. Results are kept
  with an odd significand (or as \<open>Double 0 0\<close>), so that equal numbers are equal terms.
  The exponent is unbounded: overflow, subnormal numbers, infinities, NaN and the sign
  of zero are not modelled.
\<close>

datatype double = Double int int

fun bit_length :: "int \<Rightarrow> nat" where
  "bit_length n = (if n \<le> 0 then 0 else Suc (bit_length (n div 2)))"

definition round_half_even :: "int \<Rightarrow> int \<Rightarrow> int \<times> int" where
  "round_half_even m e =
     (let n = bit_length \<bar>m\<bar> in
      if n \<le> 53 then (m, e)
      else
        (let k = n - 53;
             q = \<bar>m\<bar> div 2 ^ k;
             r = \<bar>m\<bar> mod 2 ^ k;
             half = 2 ^ (k - 1);
             q' = (if r > half \<or> (r = half \<and> odd q) then q + 1 else q)
         in (sgn m * q', e + int k)))"

function normal :: "int \<Rightarrow> int \<Rightarrow> double" where
  "normal m e =
     (if m = 0 then Double 0 0
      else if even m then normal (m div 2) (e + 1)
      else Double m e)"
  by pat_completeness auto
termination
  by (relation "measure (\<lambda>(m, e). nat \<bar>m\<bar>)") auto

instantiation double :: "{zero, plus}"
begin

definition zero_double :: double where
  "zero_double = Double 0 0"

fun plus_double :: "double \<Rightarrow> double \<Rightarrow> double" where
  "plus_double (Double m1 e1) (Double m2 e2) =
     (let e = min e1 e2;
          m = m1 * 2 ^ nat (e1 - e) + m2 * 2 ^ nat (e2 - e)
      in case round_half_even m e of (m', e') \<Rightarrow> normal m' e')"

instance ..

end





section \<open>The invariant of the per-second counts\<close>

lemma counts_ok_empty: "counts_ok Map.empty"
  by (simp add: counts_ok_def)

lemma default_counts_sides:
  "default_counts ''buyers'' = Some 0" "default_counts ''sellers'' = Some 0"
  by (simp_all add: default_counts_def)

lemma counts_ok_upd:
  "counts_ok m \<Longrightarrow> d ''buyers'' \<noteq> None \<Longrightarrow> d ''sellers'' \<noteq> None \<Longrightarrow> counts_ok (m(k \<mapsto> d))"
  by (simp add: counts_ok_def)

lemma dd_getitem_ok:
  assumes "counts_ok m"
  shows "fst (dd_getitem m k) ''buyers'' \<noteq> None"
    and "fst (dd_getitem m k) ''sellers'' \<noteq> None"
    and "counts_ok (snd (dd_getitem m k))"
  using assms
  by (auto simp: dd_getitem_def counts_ok_def default_counts_sides split: option.splits)

lemma dd_getitem_idem:
  "dd_getitem (snd (dd_getitem m k)) k = (fst (dd_getitem m k), snd (dd_getitem m k))"
  by (simp add: dd_getitem_def split: option.splits)


lemma increment_ok:
  assumes "counts_ok m" and "side = ''buyers'' \<or> side = ''sellers''"
  shows "fst (increment m k side) = Inr ()" and "counts_ok (snd (increment m k side))"
proof -
  obtain d m' where g: "dd_getitem m k = (d, m')" by (cases "dd_getitem m k")
  from dd_getitem_ok[OF assms(1), of k] g
  have d: "d ''buyers'' \<noteq> None" "d ''sellers'' \<noteq> None" and m': "counts_ok m'" by simp_all
  from d assms(2) obtain v where v: "d side = Some v" by auto
  show "fst (increment m k side) = Inr ()" by (simp add: increment_def g v)
  have "counts_ok (m'(k \<mapsto> d(side \<mapsto> v + 1)))"
    using m' d by (intro counts_ok_upd) auto
  then show "counts_ok (snd (increment m k side))" by (simp add: increment_def g v)
qed

lemma scan_seconds_ok:
  "counts_ok m \<Longrightarrow>
   (\<exists>r. fst (scan_seconds xs acc m) = Inr r) \<and> counts_ok (snd (scan_seconds xs acc m))"
proof (induction xs arbitrary: acc m)
  case Nil
  then show ?case by simp
next
  case (Cons x xs)
  obtain mb ms where acc: "acc = (mb, ms)" by (cases acc)
  obtain d m1 where g: "dd_getitem m x = (d, m1)" by (cases "dd_getitem m x")
  from dd_getitem_ok[OF Cons.prems, of x] g
  obtain b s where d: "d ''buyers'' = Some b" "d ''sellers'' = Some s" and m1: "counts_ok m1"
    by auto
  have g2: "dd_getitem m1 x = (d, m1)"
    using dd_getitem_idem[of m x] g by simp
  show ?case using Cons.IH[OF m1] by (simp add: acc g g2 d)
qed

lemma max_per_second_ok:
  "counts_ok m \<Longrightarrow>
   (\<exists>r. fst (max_per_second m open_time close_time) = Inr r) \<and>
   counts_ok (snd (max_per_second m open_time close_time))"
  using scan_seconds_ok[of m "[open_time div 1000..close_time div 1000]" "(0, 0)"]
  by (simp add: max_per_second_def Let_def)

lemma cleanup_ok: "counts_ok m \<Longrightarrow> counts_ok (snd (cleanup buffer m close_time))"
  by (simp add: cleanup_def counts_ok_def Let_def)


lemma add_trade_ok:
  assumes "counts_ok (second_trade_counts self)"
  shows "fst (add_trade self trade) = Inr ()"
    and "counts_ok (second_trade_counts (snd (add_trade self trade)))"
  using increment_ok[OF assms, of "''buyers''" "timestamp trade div 1000"]
        increment_ok[OF assms, of "''sellers''" "timestamp trade div 1000"]
  by (auto simp: add_trade_def Let_def split: prod.splits)

section \<open>The outcomes of \<^verbatim>\<open>process_minute_candle\<close>\<close>

lemma process_not_closed:
  "\<not> is_closed kline_data \<Longrightarrow>
   process_minute_candle int_of_str py_float self kline_data = (Inr None, self)"
  by (simp add: process_minute_candle_def is_closed_def)

lemma process_times_error:
  "is_closed kline_data \<Longrightarrow> candle_times int_of_str kline_data = Inl e \<Longrightarrow>
   process_minute_candle int_of_str py_float self kline_data = (Inl e, self)"
  by (simp add: process_minute_candle_def is_closed_def)

lemma process_scan_error:
  "is_closed kline_data \<Longrightarrow> candle_times int_of_str kline_data = Inr (open_time, close_time) \<Longrightarrow>
   max_per_second (second_trade_counts self) open_time close_time = (Inl e, m) \<Longrightarrow>
   process_minute_candle int_of_str py_float self kline_data =
     (Inl e, self\<lparr>second_trade_counts := m\<rparr>)"
  by (simp add: process_minute_candle_def is_closed_def Let_def split: prod.splits)

lemma process_price_error:
  "is_closed kline_data \<Longrightarrow> candle_times int_of_str kline_data = Inr (open_time, close_time) \<Longrightarrow>
   max_per_second (second_trade_counts self) open_time close_time = (Inr maxima, m) \<Longrightarrow>
   kline_prices py_float kline_data = Inl e \<Longrightarrow>
   process_minute_candle int_of_str py_float self kline_data =
     (Inl e, self\<lparr>second_trade_counts := m\<rparr>)"
  by (cases maxima) (simp add: process_minute_candle_def is_closed_def Let_def split: prod.splits)

lemma process_candle:
  "is_closed kline_data \<Longrightarrow> candle_times int_of_str kline_data = Inr (open_time, close_time) \<Longrightarrow>
   max_per_second (second_trade_counts self) open_time close_time = (Inr maxima, m) \<Longrightarrow>
   kline_prices py_float kline_data = Inr prices \<Longrightarrow>
   process_minute_candle int_of_str py_float self kline_data =
     (Inr (Some (candle_of (trades_buffer self) open_time close_time maxima prices)),
      self\<lparr>trades_buffer := fst (cleanup (trades_buffer self) m close_time),
           second_trade_counts := snd (cleanup (trades_buffer self) m close_time)\<rparr>)"
  by (cases maxima; cases prices)
     (simp add: process_minute_candle_def is_closed_def candle_of_def Let_def split: prod.splits)

lemma process_cases:
  obtains
    (not_closed) "\<not> is_closed kline_data"
      "process_minute_candle int_of_str py_float self kline_data = (Inr None, self)"
  | (times_error) e where "is_closed kline_data"
      "process_minute_candle int_of_str py_float self kline_data = (Inl e, self)"
  | (later_error) e open_time close_time where "is_closed kline_data"
      "candle_times int_of_str kline_data = Inr (open_time, close_time)"
      "process_minute_candle int_of_str py_float self kline_data =
         (Inl e, self\<lparr>second_trade_counts :=
            snd (max_per_second (second_trade_counts self) open_time close_time)\<rparr>)"
  | (candle) open_time close_time maxima m prices where "is_closed kline_data"
      "candle_times int_of_str kline_data = Inr (open_time, close_time)"
      "max_per_second (second_trade_counts self) open_time close_time = (Inr maxima, m)"
      "kline_prices py_float kline_data = Inr prices"
      "process_minute_candle int_of_str py_float self kline_data =
        (Inr (Some (candle_of (trades_buffer self) open_time close_time maxima prices)),
         self\<lparr>trades_buffer := fst (cleanup (trades_buffer self) m close_time),
              second_trade_counts := snd (cleanup (trades_buffer self) m close_time)\<rparr>)"
proof (cases "is_closed kline_data")
  case False
  then show ?thesis using not_closed process_not_closed by blast
next
  case closed: True
  show ?thesis
  proof (cases "candle_times int_of_str kline_data")
    case (Inl e)
    then show ?thesis using times_error closed process_times_error by blast
  next
    case (Inr tt)
    obtain open_time close_time where tt: "tt = (open_time, close_time)" by (cases tt)
    obtain r m where scan: "max_per_second (second_trade_counts self) open_time close_time = (r, m)"
      by (cases "max_per_second (second_trade_counts self) open_time close_time")
    show ?thesis
    proof (cases r)
      case (Inl e)
      with scan closed Inr tt show ?thesis
        using later_error[of open_time close_time e]
          process_scan_error[of kline_data int_of_str open_time close_time self e m py_float]
        by simp
    next
      case maxima: (Inr maxima)
      show ?thesis
      proof (cases "kline_prices py_float kline_data")
        case (Inl e)
        with scan closed Inr tt maxima show ?thesis
          using later_error[of open_time close_time e]
            process_price_error[of kline_data int_of_str open_time close_time self maxima m py_float e]
          by simp
      next
        case prices: (Inr prices)
        with scan closed Inr tt maxima show ?thesis
          using candle[of open_time close_time maxima m prices]
            process_candle[of kline_data int_of_str open_time close_time self maxima m py_float prices]
          by simp
      qed
    qed
  qed
qed

lemma process_Some:
  assumes "fst (process_minute_candle int_of_str py_float self kline_data) = Inr (Some candle)"
  obtains open_time close_time maxima m prices where
    "is_closed kline_data"
    "candle_times int_of_str kline_data = Inr (open_time, close_time)"
    "max_per_second (second_trade_counts self) open_time close_time = (Inr maxima, m)"
    "kline_prices py_float kline_data = Inr prices"
    "candle = candle_of (trades_buffer self) open_time close_time maxima prices"
    "snd (process_minute_candle int_of_str py_float self kline_data) =
       self\<lparr>trades_buffer := fst (cleanup (trades_buffer self) m close_time),
            second_trade_counts := snd (cleanup (trades_buffer self) m close_time)\<rparr>"
  using assms
  by (cases rule: process_cases[of kline_data int_of_str py_float self]) auto

lemma process_counts_ok:
  assumes "counts_ok (second_trade_counts self)"
  shows "counts_ok
    (second_trade_counts (snd (process_minute_candle int_of_str py_float self kline_data)))"
proof (cases rule: process_cases[of kline_data int_of_str py_float self])
  case not_closed
  then show ?thesis using assms by simp
next
  case (times_error e)
  then show ?thesis using assms by simp
next
  case (later_error e open_time close_time)
  then show ?thesis using max_per_second_ok[OF assms, of open_time close_time] by simp
next
  case (candle open_time close_time maxima m prices)
  have "counts_ok m" using max_per_second_ok[OF assms, of open_time close_time] candle(3) by simp
  then show ?thesis using candle(5) by (simp add: cleanup_ok)
qed

lemma reachable_counts_ok: "reachable self \<Longrightarrow> counts_ok (second_trade_counts self)"
proof (induction rule: reachable.induct)
  case reach_init
  show ?case by (simp add: init_def counts_ok_empty)
next
  case (reach_add self trade)
  then show ?case by (simp add: add_trade_ok)
next
  case (reach_process self int_of_str py_float kline_data)
  then show ?case by (simp add: process_counts_ok)
qed

lemma candle_of_fields:
  "candle_timestamp (candle_of buffer open_time close_time maxima prices) = open_time"
  "num_buyers (candle_of buffer open_time close_time maxima prices) =
     fst (trade_metrics (minute_trades_of buffer open_time close_time))"
  "num_sellers (candle_of buffer open_time close_time maxima prices) =
     fst (snd (trade_metrics (minute_trades_of buffer open_time close_time)))"
  "buyers_volume (candle_of buffer open_time close_time maxima prices) =
     fst (snd (snd (trade_metrics (minute_trades_of buffer open_time close_time))))"
  "sellers_volume (candle_of buffer open_time close_time maxima prices) =
     snd (snd (snd (trade_metrics (minute_trades_of buffer open_time close_time))))"
  "power_position (candle_of buffer open_time close_time maxima prices) =
     power_position_of (num_buyers (candle_of buffer open_time close_time maxima prices))
       (num_sellers (candle_of buffer open_time close_time maxima prices))"
  "max_buyers_per_second (candle_of buffer open_time close_time maxima prices) = fst maxima"
  "max_sellers_per_second (candle_of buffer open_time close_time maxima prices) = snd maxima"
  by (simp_all add: candle_of_def split: prod.splits)

section \<open>Reading and incrementing the counts\<close>

lemma read_count_dd: "read_count (snd (dd_getitem m x)) k side = read_count m k side"
  by (simp add: read_count_def dd_getitem_def split: option.splits)

lemma read_count_upd_other: "k \<noteq> x \<Longrightarrow> read_count (m(x \<mapsto> d)) k side = read_count m k side"
  by (simp add: read_count_def dd_getitem_def split: option.splits)

lemma read_count_upd_same: "read_count (m(x \<mapsto> d)) x side = d side"
  by (simp add: read_count_def dd_getitem_def)

lemma increment_effect:
  assumes "counts_ok m" and "side = ''buyers'' \<or> side = ''sellers''"
  shows "\<exists>v. read_count m k side = Some v \<and>
           increment m k side =
             (Inr (), (snd (dd_getitem m k))(k \<mapsto> (fst (dd_getitem m k))(side \<mapsto> v + 1)))"
proof -
  from dd_getitem_ok(1,2)[OF assms(1), of k] assms(2)
  obtain v where v: "fst (dd_getitem m k) side = Some v" by auto
  then have "increment m k side =
      (Inr (), (snd (dd_getitem m k))(k \<mapsto> (fst (dd_getitem m k))(side \<mapsto> v + 1)))"
    by (cases "dd_getitem m k") (simp add: increment_def)
  with v show ?thesis by (auto simp: read_count_def)
qed

lemma add_trade_increment:
  "add_trade self trade =
     (fst (increment (second_trade_counts self) (timestamp trade div 1000) (side_of trade)),
      self\<lparr>trades_buffer := trades_buffer self @ [trade],
           second_trade_counts :=
             snd (increment (second_trade_counts self) (timestamp trade div 1000) (side_of trade))\<rparr>)"
  by (simp add: add_trade_def side_of_def Let_def split: prod.splits)

lemma add_trade_buffer:
  "trades_buffer (snd (add_trade self trade)) = trades_buffer self @ [trade]"
  by (simp add: add_trade_increment)

lemma init_buffer: "trades_buffer init = []"
  by (simp add: init_def)

lemma add_trade_effect:
  assumes "counts_ok (second_trade_counts self)"
  shows "fst (add_trade self trade) = Inr () \<and>
         trades_buffer (snd (add_trade self trade)) = trades_buffer self @ [trade] \<and>
         current_minute_start (snd (add_trade self trade)) = current_minute_start self \<and>
         (\<exists>v. read_count (second_trade_counts self) (timestamp trade div 1000) (side_of trade) = Some v \<and>
              read_count (second_trade_counts (snd (add_trade self trade)))
                (timestamp trade div 1000) (side_of trade) = Some (v + 1)) \<and>
         (\<forall>second side. second \<noteq> timestamp trade div 1000 \<or> side \<noteq> side_of trade \<longrightarrow>
              read_count (second_trade_counts (snd (add_trade self trade))) second side =
              read_count (second_trade_counts self) second side)"
proof -
  let ?m = "second_trade_counts self" and ?k = "timestamp trade div 1000" and ?s = "side_of trade"
  have s: "?s = ''buyers'' \<or> ?s = ''sellers''" by (simp add: side_of_def)
  from increment_effect[OF assms s, of ?k] obtain v where
    v: "read_count ?m ?k ?s = Some v" and
    i: "increment ?m ?k ?s =
          (Inr (), (snd (dd_getitem ?m ?k))(?k \<mapsto> (fst (dd_getitem ?m ?k))(?s \<mapsto> v + 1)))"
    by blast
  have a: "add_trade self trade =
     (Inr (), self\<lparr>trades_buffer := trades_buffer self @ [trade],
        second_trade_counts :=
          (snd (dd_getitem ?m ?k))(?k \<mapsto> (fst (dd_getitem ?m ?k))(?s \<mapsto> v + 1))\<rparr>)"
    by (simp add: add_trade_increment i)
  have same: "read_count (second_trade_counts (snd (add_trade self trade))) ?k ?s = Some (v + 1)"
    by (simp add: a read_count_upd_same)
  have other: "read_count (second_trade_counts (snd (add_trade self trade))) second side =
      read_count ?m second side" if "second \<noteq> ?k \<or> side \<noteq> ?s" for second side
  proof (cases "second = ?k")
    case True
    with that have "side \<noteq> ?s" by simp
    then show ?thesis by (simp add: a True read_count_upd_same) (simp add: read_count_def)
  next
    case False
    then show ?thesis by (simp add: a read_count_upd_other read_count_dd)
  qed
  from a v same other show ?thesis by simp
qed

section \<open>The scan over the seconds\<close>







section \<open>Counts and volumes of the matched trades\<close>

lemma py_sum_ones: "py_sum (map (\<lambda>x. 1::int) xs) = int (length xs)"
proof -
  have "foldl (+) a (map (\<lambda>x. 1::int) xs) = a + int (length xs)" for a
    by (induction xs arbitrary: a) simp_all
  then show ?thesis by (simp add: py_sum_def)
qed



lemma comprehension_filter:
  "concat (map (\<lambda>x. if P x then [f x] else []) xs) = map f (filter P xs)"
  by (induction xs) simp_all


lemma trade_metrics_counts:
  "fst (trade_metrics ts) = int (length [t \<leftarrow> ts. \<not> is_buyer_maker t])"
  "fst (snd (trade_metrics ts)) = int (length [t \<leftarrow> ts. is_buyer_maker t])"
  by (simp_all add: trade_metrics_def comprehension_filter py_sum_ones)




section \<open>Well-formed bucket summaries\<close>

lemma wf_candle_times:
  assumes "kline_data ''t'' = Some (PyInt open_time)" "kline_data ''T'' = Some (PyInt close_time)"
  shows "candle_times int_of_str kline_data = Inr (open_time, close_time)"
  using assms by (simp add: candle_times_def getitem_def and_then_def)

lemma is_int_fieldE:
  assumes "is_int_field kline_data key"
  obtains n where "kline_data key = Some (PyInt n)"
  using assms by (auto simp: is_int_field_def split: option.splits py_value.splits)

lemma numeric_float_field:
  assumes "is_numeric_field py_float kline_data key"
  shows "\<exists>x. float_field py_float kline_data key = Inr x"
  using assms
  by (auto simp: is_numeric_field_def float_field_def getitem_def and_then_def
           split: option.splits py_value.splits sum.splits)

lemma wf_kline_prices:
  assumes "well_formed_kline py_float kline_data"
  shows "\<exists>prices. kline_prices py_float kline_data = Inr prices"
proof -
  from assms obtain po ph pl pc pv where
    "float_field py_float kline_data ''o'' = Inr po"
    "float_field py_float kline_data ''h'' = Inr ph"
    "float_field py_float kline_data ''l'' = Inr pl"
    "float_field py_float kline_data ''c'' = Inr pc"
    "float_field py_float kline_data ''v'' = Inr pv"
    unfolding well_formed_kline_def using numeric_float_field by metis
  then show ?thesis by (simp add: kline_prices_def and_then_def)
qed

lemma wf_kline_times:
  assumes "well_formed_kline py_float kline_data"
  shows "\<exists>open_time close_time. kline_data ''t'' = Some (PyInt open_time) \<and>
           kline_data ''T'' = Some (PyInt close_time)"
  using assms unfolding well_formed_kline_def by (meson is_int_fieldE)

section \<open>The sample inputs\<close>

lemma example_kline_fields:
  "example_kline ''x'' = Some (PyBool True)"
  "example_kline ''t'' = Some (PyInt 0)"
  "example_kline ''T'' = Some (PyInt 3000)"
  "example_kline ''o'' = Some (PyStr ''1.5'')"
  "example_kline ''h'' = Some (PyStr ''2.0'')"
  "example_kline ''l'' = Some (PyStr ''1.5'')"
  "example_kline ''c'' = Some (PyStr ''2.0'')"
  "example_kline ''v'' = Some (PyStr ''2.0'')"
  by (simp_all add: example_kline_def)

lemma example_closed: "is_closed example_kline"
  by (simp add: is_closed_def dict_get_def example_kline_fields)

lemma example_well_formed: "well_formed_kline example_float example_kline"
  by (simp add: well_formed_kline_def is_int_field_def is_numeric_field_def
      example_kline_fields example_float_def)

lemma example_times: "candle_times int_of_str example_kline = Inr (0, 3000)"
  by (simp add: example_kline_fields wf_candle_times)

lemma example_prices: "kline_prices example_float example_kline = Inr (3 / 2, 2, 3 / 2, 2, 2)"
  by (simp add: kline_prices_def float_field_def getitem_def and_then_def
      example_kline_fields example_float_def)

lemma example_trade_fields:
  "timestamp (example_trade ts maker) = ts"
  "quantity (example_trade ts maker) = 2"
  "is_buyer_maker (example_trade ts maker) = maker"
  by (simp_all add: example_trade_def)

lemma example_reachable: "reachable (snd (add_trade init (example_trade ts maker)))"
  by (intro reach_add reach_init)

lemma max_per_second_example:
  "fst (max_per_second (second_trade_counts (snd (add_trade init (example_trade 1000 False)))) 0 3000)
     = Inr (1, 0)"
  by (simp add: max_per_second_def upto.simps add_trade_increment side_of_def example_trade_fields
      init_def increment_def dd_getitem_def default_counts_def)

lemma example_process:
  "fst (process_minute_candle int_of_str example_float
     (snd (add_trade init (example_trade 1000 False))) example_kline) =
   Inr (Some (candle_of [example_trade 1000 False] 0 3000 (1, 0) (3 / 2, 2, 3 / 2, 2, 2)))"
proof -
  obtain m where
    "max_per_second (second_trade_counts (snd (add_trade init (example_trade 1000 False)))) 0 3000
       = (Inr (1, 0), m)"
    using max_per_second_example by (metis prod.collapse)
  from process_candle [OF example_closed example_times this example_prices]
  show ?thesis by (simp add: add_trade_buffer init_buffer)
qed

lemma example_candle_counts:
  "num_buyers (candle_of [example_trade 1000 False] 0 3000 mx pr) = 1"
  "num_sellers (candle_of [example_trade 1000 False] 0 3000 mx pr) = 0"
  by (simp_all add: candle_of_fields trade_metrics_counts minute_trades_of_def example_trade_fields)

section \<open>The claims\<close>

text \<open>
  Claim C1. Starting from an empty \<^verbatim>\<open>DataProcessor\<close>, record three trades: timestamp
  1000 buyer-initiated, timestamp 1500 seller-initiated, timestamp 2999 buyer-initiated;
  then process a closed bucket with open time 0 and close time 3000. Each \<^verbatim>\<open>add_trade\<close>
  returns, and the candle produced has \<open>num_buyers = 2\<close>, \<open>num_sellers = 1\<close>,
  \<open>power_position = 1\<close>, \<open>max_buyers_per_second = 1\<close> and \<open>max_sellers_per_second = 1\<close>.
  Prices, quantities and trade ids are arbitrary; the five OHLCV fields of the bucket
  are values that \<^verbatim>\<open>float\<close> accepts.
\<close>

theorem scenario_candle:
  assumes "py_float vo = Inr po" and "py_float vh = Inr ph" and "py_float vl = Inr pl"
    and "py_float vc = Inr pc" and "py_float vv = Inr pv"
  shows "fst (add_trade init
            \<lparr>timestamp = 1000, price = p1, quantity = q1, is_buyer_maker = False, trade_id = i1\<rparr>)
           = Inr () \<and>
         fst (add_trade (snd (add_trade init
            \<lparr>timestamp = 1000, price = p1, quantity = q1, is_buyer_maker = False, trade_id = i1\<rparr>))
            \<lparr>timestamp = 1500, price = p2, quantity = q2, is_buyer_maker = True, trade_id = i2\<rparr>)
           = Inr () \<and>
         fst (add_trade (snd (add_trade (snd (add_trade init
            \<lparr>timestamp = 1000, price = p1, quantity = q1, is_buyer_maker = False, trade_id = i1\<rparr>))
            \<lparr>timestamp = 1500, price = p2, quantity = q2, is_buyer_maker = True, trade_id = i2\<rparr>))
            \<lparr>timestamp = 2999, price = p3, quantity = q3, is_buyer_maker = False, trade_id = i3\<rparr>)
           = Inr () \<and>
         (\<exists>candle.
            fst (process_minute_candle int_of_str py_float
              (snd (add_trade (snd (add_trade (snd (add_trade init
                \<lparr>timestamp = 1000, price = p1, quantity = q1, is_buyer_maker = False, trade_id = i1\<rparr>))
                \<lparr>timestamp = 1500, price = p2, quantity = q2, is_buyer_maker = True, trade_id = i2\<rparr>))
                \<lparr>timestamp = 2999, price = p3, quantity = q3, is_buyer_maker = False, trade_id = i3\<rparr>))
              [''x'' \<mapsto> PyBool True, ''t'' \<mapsto> PyInt 0, ''T'' \<mapsto> PyInt 3000,
               ''o'' \<mapsto> vo, ''h'' \<mapsto> vh, ''l'' \<mapsto> vl, ''c'' \<mapsto> vc, ''v'' \<mapsto> vv])
              = Inr (Some candle) \<and>
            num_buyers candle = 2 \<and> num_sellers candle = 1 \<and> power_position candle = 1 \<and>
            max_buyers_per_second candle = 1 \<and> max_sellers_per_second candle = 1)"
  using assms
  by (simp add: add_trade_def init_def increment_def dd_getitem_def
      default_counts_def and_then_def process_minute_candle_def getitem_def dict_get_def
      candle_times_def kline_prices_def
      minute_trades_of_def trade_metrics_def py_sum_def power_position_of_def max_per_second_def
      float_field_def cleanup_def upto.simps)

theorem scenario_candle_witness:
  "\<exists>candle.
      fst (process_minute_candle (\<lambda>s. None) example_float
        (snd (add_trade (snd (add_trade (snd (add_trade init
          \<lparr>timestamp = 1000, price = 3 / 2, quantity = 2, is_buyer_maker = False, trade_id = 1\<rparr>))
          \<lparr>timestamp = 1500, price = 3 / 2, quantity = 1, is_buyer_maker = True, trade_id = 2\<rparr>))
          \<lparr>timestamp = 2999, price = 2, quantity = 3, is_buyer_maker = False, trade_id = 3\<rparr>))
        [''x'' \<mapsto> PyBool True, ''t'' \<mapsto> PyInt 0, ''T'' \<mapsto> PyInt 3000,
         ''o'' \<mapsto> PyStr ''1.5'', ''h'' \<mapsto> PyStr ''2.0'', ''l'' \<mapsto> PyStr ''1.5'',
         ''c'' \<mapsto> PyStr ''2.0'', ''v'' \<mapsto> PyStr ''2.0''])
        = Inr (Some candle) \<and>
      num_buyers candle = 2 \<and> num_sellers candle = 1 \<and> power_position candle = 1 \<and>
      max_buyers_per_second candle = 1 \<and> max_sellers_per_second candle = 1"
proof -
  have a: "example_float (PyStr ''1.5'') = Inr (3 / 2)"
    and b: "example_float (PyStr ''2.0'') = Inr 2"
    by (simp_all add: example_float_def)
  from scenario_candle [OF a b a b b, of "3 / 2" 2 1 "3 / 2" 1 2 2 3 3 "\<lambda>s. None"]
  show ?thesis by blast
qed



text \<open>
  Claim C3. The claim is that the scan of the per-second maxima leaves the dict of
  counts unchanged, entries being created by \<^verbatim>\<open>add_trade\<close> only. The code reads
  through \<^verbatim>\<open>defaultdict.__getitem__\<close>, which inserts: on the constructor's state, where
  no trade was recorded, processing the closed bucket from 0 to 3000 leaves an entry with
  the factory's zeros for second 3 (whatever \<^verbatim>\<open>float\<close> then does with the OHLCV
  fields).
\<close>

theorem scan_inserts_entries:
  "second_trade_counts (init :: 'f::{zero,plus} DataProcessor) 3 = None \<and>
   second_trade_counts
     (snd (process_minute_candle int_of_str py_float (init :: 'f DataProcessor)
        [''x'' \<mapsto> PyBool True, ''t'' \<mapsto> PyInt 0, ''T'' \<mapsto> PyInt 3000,
         ''o'' \<mapsto> vo, ''h'' \<mapsto> vh, ''l'' \<mapsto> vl, ''c'' \<mapsto> vc, ''v'' \<mapsto> vv])) 3
     = Some default_counts"
  by (simp add: process_minute_candle_def init_def dict_get_def candle_times_def getitem_def
      and_then_def max_per_second_def upto.simps dd_getitem_def default_counts_def
      cleanup_def trade_metrics_def minute_trades_of_def Let_def
      split: sum.splits prod.splits)

text \<open>
  Claim C4. The range query of lines 104-107 returns trades of the buffer only, and a
  trade of the buffer is returned if and only if \<open>open_time \<le> timestamp \<le> close_time\<close>:
  both ends are included, and a trade outside the range is not returned.
\<close>

theorem minute_trades_inclusive:
  "set (minute_trades_of buffer open_time close_time) \<subseteq> set buffer \<and>
   (\<forall>trade \<in> set buffer.
      trade \<in> set (minute_trades_of buffer open_time close_time) \<longleftrightarrow>
      open_time \<le> timestamp trade \<and> timestamp trade \<le> close_time)"
  by (auto simp: minute_trades_of_def)

theorem minute_trades_inclusive_witness:
  "example_trade 1000 False \<in> set (minute_trades_of
      [example_trade 999 False, example_trade 1000 False, example_trade 2000 True,
       example_trade 2001 True] 1000 2000) \<and>
   example_trade 2000 True \<in> set (minute_trades_of
      [example_trade 999 False, example_trade 1000 False, example_trade 2000 True,
       example_trade 2001 True] 1000 2000) \<and>
   example_trade 999 False \<notin> set (minute_trades_of
      [example_trade 999 False, example_trade 1000 False, example_trade 2000 True,
       example_trade 2001 True] 1000 2000) \<and>
   example_trade 2001 True \<notin> set (minute_trades_of
      [example_trade 999 False, example_trade 1000 False, example_trade 2000 True,
       example_trade 2001 True] 1000 2000)"
  using minute_trades_inclusive [of "[example_trade 999 False, example_trade 1000 False,
      example_trade 2000 True, example_trade 2001 True]" 1000 2000]
  by (simp add: example_trade_fields)

text \<open>
  Claim C5. In every reachable state and for every trade, \<^verbatim>\<open>add_trade\<close> returns,
  appends the trade to the buffer, and adds one to exactly one counter: the one read at
  second \<open>timestamp div 1000\<close> under \<^verbatim>\<open>'sellers'\<close> when \<open>is_buyer_maker\<close> holds and
  under \<^verbatim>\<open>'buyers'\<close> otherwise; every other counter reads as before. Nothing about
  the order of timestamps or the trade id is checked: recording the same trade a second
  time appends it again and brings the counter to two more than at the start.
\<close>

theorem add_trade_records:
  assumes "reachable self"
  shows "fst (add_trade self trade) = Inr () \<and>
         trades_buffer (snd (add_trade self trade)) = trades_buffer self @ [trade] \<and>
         (\<exists>v. read_count (second_trade_counts self) (timestamp trade div 1000)
                 (if is_buyer_maker trade then ''sellers'' else ''buyers'') = Some v \<and>
              read_count (second_trade_counts (snd (add_trade self trade))) (timestamp trade div 1000)
                 (if is_buyer_maker trade then ''sellers'' else ''buyers'') = Some (v + 1) \<and>
              read_count (second_trade_counts (snd (add_trade (snd (add_trade self trade)) trade)))
                 (timestamp trade div 1000)
                 (if is_buyer_maker trade then ''sellers'' else ''buyers'') = Some (v + 2)) \<and>
         (\<forall>second side.
              second \<noteq> timestamp trade div 1000 \<or>
              side \<noteq> (if is_buyer_maker trade then ''sellers'' else ''buyers'') \<longrightarrow>
              read_count (second_trade_counts (snd (add_trade self trade))) second side =
              read_count (second_trade_counts self) second side) \<and>
         fst (add_trade (snd (add_trade self trade)) trade) = Inr () \<and>
         trades_buffer (snd (add_trade (snd (add_trade self trade)) trade)) =
           trades_buffer self @ [trade, trade]"
proof -
  have ok: "counts_ok (second_trade_counts self)" using assms by (rule reachable_counts_ok)
  have ok': "counts_ok (second_trade_counts (snd (add_trade self trade)))"
    using ok by (rule add_trade_ok)
  from add_trade_effect[OF ok, of trade] add_trade_effect[OF ok', of trade]
  show ?thesis unfolding side_of_def by (simp; fastforce)
qed

theorem add_trade_records_witness:
  "reachable (init :: real DataProcessor) \<and>
   fst (add_trade init (example_trade 1000 False)) = Inr () \<and>
   trades_buffer (snd (add_trade init (example_trade 1000 False))) = [example_trade 1000 False] \<and>
   read_count (second_trade_counts (init :: real DataProcessor)) 1 ''buyers'' = Some 0 \<and>
   read_count (second_trade_counts (snd (add_trade init (example_trade 1000 False)))) 1 ''buyers''
     = Some 1 \<and>
   read_count (second_trade_counts (snd (add_trade (snd (add_trade init (example_trade 1000 False)))
      (example_trade 1000 False)))) 1 ''buyers'' = Some 2 \<and>
   read_count (second_trade_counts (snd (add_trade init (example_trade 1000 False)))) 1 ''sellers''
     = Some 0"
proof -
  have r: "reachable (init :: real DataProcessor)" by (rule reach_init)
  have z: "read_count (second_trade_counts (init :: real DataProcessor)) 1 ''buyers'' = Some 0"
    "read_count (second_trade_counts (init :: real DataProcessor)) 1 ''sellers'' = Some 0"
    by (simp_all add: read_count_def dd_getitem_def init_def default_counts_def)
  from add_trade_records [OF r, of "example_trade 1000 False"] r z
  show ?thesis by (simp add: example_trade_fields init_buffer)
qed

text \<open>
  Claim C6. For every candle that \<^verbatim>\<open>process_minute_candle\<close> returns:
  \<open>power_position\<close> is 0 when \<open>num_buyers\<close> equals \<open>num_sellers\<close>, 1 when
  \<open>num_buyers\<close> is greater, and -1 when \<open>num_sellers\<close> is greater.
\<close>

theorem power_position_tie_break:
  assumes "fst (process_minute_candle int_of_str py_float self kline_data) = Inr (Some candle)"
  shows "(num_buyers candle = num_sellers candle \<longrightarrow> power_position candle = 0) \<and>
         (num_buyers candle > num_sellers candle \<longrightarrow> power_position candle = 1) \<and>
         (num_sellers candle > num_buyers candle \<longrightarrow> power_position candle = - 1)"
proof -
  from assms obtain open_time close_time maxima prices where
    "candle = candle_of (trades_buffer self) open_time close_time maxima prices"
    by (rule process_Some)
  then have "power_position candle = power_position_of (num_buyers candle) (num_sellers candle)"
    by (simp add: candle_of_fields(6))
  then show ?thesis by (simp add: power_position_of_def)
qed

theorem power_position_tie_break_witness:
  "\<exists>candle. fst (process_minute_candle (\<lambda>s. None) example_float
       (snd (add_trade init (example_trade 1000 False))) example_kline) = Inr (Some candle) \<and>
     num_buyers candle = 1 \<and> num_sellers candle = 0 \<and> power_position candle = 1"
  using power_position_tie_break [OF example_process [of "\<lambda>s. None"]]
    example_process [of "\<lambda>s. None"] example_candle_counts
  by simp

text \<open>
  Claim C7. In a reachable state, for a closed, well-formed bucket summary whose range
  \<open>[open_time, close_time]\<close> matches no trade of the buffer, \<^verbatim>\<open>process_minute_candle\<close>
  does not raise and returns a candle (not \<^verbatim>\<open>None\<close>) with \<open>num_buyers\<close> and
  \<open>num_sellers\<close> 0, \<open>buyers_volume\<close> and \<open>sellers_volume\<close> the float zero, and
  \<open>power_position\<close> 0.
\<close>

theorem empty_range_candle:
  assumes "reachable self" and "is_closed kline_data" and "well_formed_kline py_float kline_data"
    and "kline_data ''t'' = Some (PyInt open_time)" and "kline_data ''T'' = Some (PyInt close_time)"
    and "minute_trades_of (trades_buffer self) open_time close_time = []"
  shows "\<exists>candle.
           fst (process_minute_candle int_of_str py_float self kline_data) = Inr (Some candle) \<and>
           num_buyers candle = 0 \<and> num_sellers candle = 0 \<and>
           buyers_volume candle = 0 \<and> sellers_volume candle = 0 \<and>
           power_position candle = 0"
proof -
  have ok: "counts_ok (second_trade_counts self)" using assms(1) by (rule reachable_counts_ok)
  have t: "candle_times int_of_str kline_data = Inr (open_time, close_time)"
    using assms(4,5) by (rule wf_candle_times)
  obtain maxima m where
    s: "max_per_second (second_trade_counts self) open_time close_time = (Inr maxima, m)"
    using max_per_second_ok[OF ok, of open_time close_time] by (metis prod.collapse)
  obtain prices where p: "kline_prices py_float kline_data = Inr prices"
    using wf_kline_prices[OF assms(3)] by blast
  let ?c = "candle_of (trades_buffer self) open_time close_time maxima prices"
  have "fst (process_minute_candle int_of_str py_float self kline_data) = Inr (Some ?c)"
    using process_candle[OF assms(2) t s p] by simp
  moreover have "num_buyers ?c = 0" "num_sellers ?c = 0"
    "buyers_volume ?c = 0" "sellers_volume ?c = 0"
    by (simp_all add: candle_of_fields assms(6) trade_metrics_def)
  moreover from this have "power_position ?c = 0"
    by (simp add: candle_of_fields(6) power_position_of_def)
  ultimately show ?thesis by blast
qed

theorem empty_range_candle_witness:
  "reachable (snd (add_trade init (example_trade 5000 False))) \<and>
   is_closed example_kline \<and> well_formed_kline example_float example_kline \<and>
   minute_trades_of (trades_buffer (snd (add_trade init (example_trade 5000 False)))) 0 3000 = [] \<and>
   (\<exists>candle. fst (process_minute_candle (\<lambda>s. None) example_float
        (snd (add_trade init (example_trade 5000 False))) example_kline) = Inr (Some candle) \<and>
      num_buyers candle = 0 \<and> num_sellers candle = 0 \<and>
      buyers_volume candle = 0 \<and> sellers_volume candle = 0 \<and> power_position candle = 0)"
proof -
  have e: "minute_trades_of
      (trades_buffer (snd (add_trade init (example_trade 5000 False)))) 0 3000 = []"
    by (simp add: add_trade_buffer init_buffer minute_trades_of_def example_trade_fields)
  from empty_range_candle [OF example_reachable example_closed example_well_formed
      example_kline_fields(2) example_kline_fields(3) e]
  show ?thesis using e example_reachable example_closed example_well_formed by blast
qed

text \<open>
  Claim C8. For a bucket summary that is not marked closed (\<^verbatim>\<open>kline_data.get('x', False)\<close>
  is false) and every state, \<^verbatim>\<open>process_minute_candle\<close> returns \<^verbatim>\<open>None\<close> and the
  state after the call is the state before it: buffer and counts are unchanged and
  nothing is evicted.
\<close>

theorem open_bucket_ignored:
  "\<not> is_closed kline_data \<Longrightarrow>
   process_minute_candle int_of_str py_float self kline_data = (Inr None, self)"
  by (simp add: process_minute_candle_def is_closed_def)

theorem open_bucket_ignored_witness:
  "\<not> is_closed (example_kline(''x'' \<mapsto> PyBool False)) \<and>
   process_minute_candle (\<lambda>s. None) example_float (snd (add_trade init (example_trade 1000 False)))
     (example_kline(''x'' \<mapsto> PyBool False)) =
   (Inr None, snd (add_trade init (example_trade 1000 False)))"
proof -
  have h: "\<not> is_closed (example_kline(''x'' \<mapsto> PyBool False))"
    by (simp add: is_closed_def dict_get_def)
  from h open_bucket_ignored [OF h] show ?thesis by simp
qed

text \<open>
  Claim C9. In every reachable state, \<^verbatim>\<open>add_trade\<close> raises nothing for any trade,
  the scan of the per-second maxima raises nothing for any range, and
  \<^verbatim>\<open>process_minute_candle\<close> raises nothing for any well-formed bucket summary (integer
  open and close times, OHLCV strings that \<^verbatim>\<open>float\<close> accepts). The range query and the
  cleanup have no raising branch at all.
\<close>

theorem no_exception:
  assumes "reachable self"
  shows "fst (add_trade self trade) = Inr () \<and>
         (\<exists>maxima. fst (max_per_second (second_trade_counts self) open_time close_time)
            = Inr maxima) \<and>
         (well_formed_kline py_float kline_data \<longrightarrow>
            (\<exists>r. fst (process_minute_candle int_of_str py_float self kline_data) = Inr r))"
proof -
  have ok: "counts_ok (second_trade_counts self)" using assms by (rule reachable_counts_ok)
  have a: "fst (add_trade self trade) = Inr ()" using ok by (rule add_trade_ok)
  have b: "\<exists>maxima. fst (max_per_second (second_trade_counts self) open_time close_time)
      = Inr maxima"
    using max_per_second_ok[OF ok] by blast
  have c: "\<exists>r. fst (process_minute_candle int_of_str py_float self kline_data) = Inr r"
    if wf: "well_formed_kline py_float kline_data"
  proof (cases rule: process_cases[of kline_data int_of_str py_float self])
    case not_closed
    then show ?thesis by simp
  next
    case (times_error e)
    obtain ot ct where "candle_times int_of_str kline_data = Inr (ot, ct)"
      using wf_kline_times[OF wf] wf_candle_times by blast
    moreover obtain maxima m where
      "max_per_second (second_trade_counts self) ot ct = (Inr maxima, m)"
      using max_per_second_ok[OF ok, of ot ct] by (metis prod.collapse)
    moreover obtain prices where "kline_prices py_float kline_data = Inr prices"
      using wf_kline_prices[OF wf] by blast
    ultimately show ?thesis using process_candle[OF times_error(1)] by (metis fst_conv)
  next
    case (later_error e open_time close_time)
    obtain maxima m where
      "max_per_second (second_trade_counts self) open_time close_time = (Inr maxima, m)"
      using max_per_second_ok[OF ok, of open_time close_time] by (metis prod.collapse)
    moreover obtain prices where "kline_prices py_float kline_data = Inr prices"
      using wf_kline_prices[OF wf] by blast
    ultimately show ?thesis using process_candle[OF later_error(1,2)] by (metis fst_conv)
  next
    case (candle open_time close_time maxima m prices)
    then show ?thesis by simp
  qed
  from a b c show ?thesis by blast
qed

theorem no_exception_witness:
  "reachable (snd (add_trade init (example_trade 1000 False))) \<and>
   well_formed_kline example_float example_kline \<and>
   fst (add_trade (snd (add_trade init (example_trade 1000 False))) (example_trade 1500 True))
     = Inr () \<and>
   (\<exists>r. fst (process_minute_candle (\<lambda>s. None) example_float
       (snd (add_trade init (example_trade 1000 False))) example_kline) = Inr r)"
  using no_exception [OF example_reachable, of 1000 False "example_trade 1500 True" 0 3000
      example_float example_kline "\<lambda>s. None"]
    example_reachable example_well_formed
  by blast




end
